theory Spec2Isabelle
  imports Complex_Main "HOL-Library.AList" "HOL-Library.Char_ord" "HOL-Library.List_Lexorder"
begin

section \<open>The currency converter of app.py\<close>

text \<open>
  The module has three functions the user interface calls: \<open>supported_currencies\<close>,
  \<open>get_rates\<close> and \<open>convert\<close>, and one constant table, \<open>FALLBACK_RATES\<close>.

  Conventions of the embedding:
  \<^item> A Python \<open>float\<close> is an exact number. \<open>convert\<close> is written over any type that has
    \<open>0\<close>, \<open>*\<close> and \<open>/\<close>, so what is proved of its control flow holds whatever the
    arithmetic is; the fallback table is over \<open>rat\<close>. Rounding error, infinities and NaN
    are outside the embedding.
  \<^item> A raised exception is the \<open>Inl\<close> branch of a sum; \<open>amount is None\<close> is \<open>None\<close> of
    an option type.
  \<^item> A currency code is an ASCII \<open>string\<close>; \<open>str.upper\<close> sends \<open>a..z\<close> to \<open>A..Z\<close> and
    leaves every other character alone.
  \<^item> A dict that the module builds or iterates is an association list in insertion
    order, read with \<open>map_of\<close> and written with \<open>AList.update\<close> (an existing key keeps its
    place and takes the new value, a new key goes to the end). The \<open>rates\<close> argument of
    \<open>convert\<close> is only tested for membership and indexed, so it is a map.
\<close>

subsection \<open>Exceptions and strings\<close>

datatype exn =
    ValueError string
  | ZeroDivisionError
  | KeyError string
  | AttributeError
  | TypeError
  | RequestException
  | JSONDecodeError

text \<open>\<open>str.upper\<close> on ASCII: 97 and 122 are the codes of \<open>a\<close> and \<open>z\<close>, 32 is the distance to
  the capital letter.\<close>

definition upper_char :: "char \<Rightarrow> char" where
  "upper_char c =
     (let n = (of_char c :: nat) in if 97 \<le> n \<and> n \<le> 122 then char_of (n - 32) else c)"

definition upper :: "string \<Rightarrow> string" where
  "upper s = map upper_char s"

subsection \<open>The fallback table and the supported currencies\<close>

definition FALLBACK_RATES :: "(string \<times> rat) list" where
  "FALLBACK_RATES =
     [(''USD'', 1),
      (''EUR'', 92 / 100),
      (''GBP'', 80 / 100),
      (''JPY'', 150),
      (''INR'', 83),
      (''CAD'', 135 / 100),
      (''AUD'', 155 / 100)]"

text \<open>\<open>sorted(FALLBACK_RATES.keys())\<close>: Python compares strings code point by code point,
  which is the lexicographic order on \<open>char list\<close>.\<close>

definition supported_currencies :: "string list" where
  "supported_currencies = sort (map fst FALLBACK_RATES)"

subsection \<open>convert\<close>

text \<open>
  The checks come in the order of the source: the null amount, then the normalisation
  of both codes, the identity case, the membership test, and last the division, which
  raises \<open>ZeroDivisionError\<close> on a zero rate.
\<close>

definition convert ::
  "'a::{zero,times,inverse} option \<Rightarrow> string \<Rightarrow> string \<Rightarrow> (string \<rightharpoonup> 'a) \<Rightarrow> exn + 'a" where
  "convert amount from_currency to_currency rates =
     (case amount of
        None \<Rightarrow> Inr 0
      | Some a \<Rightarrow>
          (let from_currency = upper from_currency;
               to_currency = upper to_currency
           in if from_currency = to_currency then Inr a
              else
                (case (rates from_currency, rates to_currency) of
                   (Some rate_from, Some rate_to) \<Rightarrow>
                     if rate_from = 0 then Inl ZeroDivisionError
                     else (let base_amount = a / rate_from in Inr (base_amount * rate_to))
                 | _ \<Rightarrow> Inl (ValueError ''Unsupported currency''))))"

subsection \<open>get\_rates\<close>

text \<open>
  What \<open>resp.json()\<close> can return: the Python value of a JSON document. A number is kept
  exact.
\<close>

datatype pyval =
    PyNone
  | PyBool bool
  | PyNum rat
  | PyStr string
  | PyList "pyval list"
  | PyDict "(string \<times> pyval) list"

text \<open>
  The world outside the module. \<open>requests\<close> is \<open>None\<close> when the import at the top of the
  module failed, as in the source, and otherwise holds \<open>requests.get(url, timeout=5)\<close>: a
  raised exception (no network, a timeout) or a response. A response has its status
  code and the outcome of \<open>resp.json()\<close>. \<open>float_of_str\<close> is the builtin \<open>float\<close> on a
  string, \<open>None\<close> where it raises \<open>ValueError\<close>.
\<close>

record response =
  status_code :: int
  json :: "exn + pyval"

record env =
  requests :: "(string \<Rightarrow> exn + response) option"
  float_of_str :: "string \<Rightarrow> rat option"

text \<open>\<open>data.get("rates")\<close>: only a dict has the method; a missing key gives \<open>None\<close>.\<close>

fun py_get :: "pyval \<Rightarrow> string \<Rightarrow> exn + pyval" where
  "py_get (PyDict items) k = Inr (case map_of items k of None \<Rightarrow> PyNone | Some v \<Rightarrow> v)"
| "py_get _ k = Inl AttributeError"

text \<open>\<open>float(v)\<close> on a value of a JSON document.\<close>

fun py_float :: "(string \<Rightarrow> rat option) \<Rightarrow> pyval \<Rightarrow> exn + rat" where
  "py_float fs (PyNum r) = Inr r"
| "py_float fs (PyBool b) = Inr (if b then 1 else 0)"
| "py_float fs (PyStr s) =
     (case fs s of None \<Rightarrow> Inl (ValueError s) | Some r \<Rightarrow> Inr r)"
| "py_float fs _ = Inl TypeError"

text \<open>\<open>{k.upper(): float(v) for k, v in rates.items()}\<close>, one item at a time.\<close>

fun upper_float_items ::
  "(string \<Rightarrow> rat option) \<Rightarrow> (string \<times> pyval) list \<Rightarrow> (string \<times> rat) list
     \<Rightarrow> exn + (string \<times> rat) list" where
  "upper_float_items fs [] acc = Inr acc"
| "upper_float_items fs ((k, v) # kvs) acc =
     (case py_float fs v of
        Inl e \<Rightarrow> Inl e
      | Inr x \<Rightarrow> upper_float_items fs kvs (AList.update (upper k) x acc))"

definition url_of :: "string \<Rightarrow> string" where
  "url_of base = ''https://api.exchangerate.host/latest?base='' @ base"

text \<open>
  The body of the \<open>try\<close> block. \<open>Inl e\<close>: the exception \<open>e\<close> was raised inside it;
  \<open>Inr (Some t)\<close>: the block returned the table \<open>t\<close>; \<open>Inr None\<close>: control fell out of
  the block with nothing returned.
\<close>

definition live_body ::
  "(string \<Rightarrow> rat option) \<Rightarrow> (string \<Rightarrow> exn + response) \<Rightarrow> string
     \<Rightarrow> exn + (string \<times> rat) list option" where
  "live_body fs get base =
     (case get (url_of base) of
        Inl e \<Rightarrow> Inl e
      | Inr resp \<Rightarrow>
          if status_code resp = 200 then
            (case json resp of
               Inl e \<Rightarrow> Inl e
             | Inr data \<Rightarrow>
                 (case py_get data ''rates'' of
                    Inl e \<Rightarrow> Inl e
                  | Inr rates \<Rightarrow>
                      (case rates of
                         PyDict items \<Rightarrow>
                           if items \<noteq> [] then
                             (case upper_float_items fs items [] of
                                Inl e \<Rightarrow> Inl e
                              | Inr t \<Rightarrow> Inr (Some t))
                           else Inr None
                       | _ \<Rightarrow> Inr None)))
          else Inr None)"

text \<open>
  \<open>if requests is not None: try: ... except Exception: pass\<close>. The result is the table
  the block returned, or \<open>None\<close> when the module goes on to the fallback.
\<close>

definition live_rates :: "env \<Rightarrow> string \<Rightarrow> (string \<times> rat) list option" where
  "live_rates e base =
     (case requests e of
        None \<Rightarrow> None
      | Some get \<Rightarrow>
          (case live_body (float_of_str e) get base of
             Inl _ \<Rightarrow> None
           | Inr r \<Rightarrow> r))"

text \<open>\<open>d[k]\<close> raises \<open>KeyError\<close> on a missing key.\<close>

definition getitem :: "(string \<times> 'v) list \<Rightarrow> string \<Rightarrow> exn + 'v" where
  "getitem d k = (case map_of d k of None \<Rightarrow> Inl (KeyError k) | Some v \<Rightarrow> Inr v)"

text \<open>\<open>{k: v / base_rate for k, v in FALLBACK_RATES.items()}\<close>, one item at a time.\<close>

fun divide_items ::
  "(string \<times> rat) list \<Rightarrow> rat \<Rightarrow> (string \<times> rat) list \<Rightarrow> exn + (string \<times> rat) list" where
  "divide_items [] base_rate acc = Inr acc"
| "divide_items ((k, v) # kvs) base_rate acc =
     (if base_rate = 0 then Inl ZeroDivisionError
      else divide_items kvs base_rate (AList.update k (v / base_rate) acc))"

text \<open>The last lines of \<open>get_rates\<close>, from \<open>base_rate = FALLBACK_RATES.get(base)\<close> on.\<close>

definition fallback_rates :: "string \<Rightarrow> exn + (string \<times> rat) list" where
  "fallback_rates base =
     (case (case map_of FALLBACK_RATES base of
              Some r \<Rightarrow> Inr r
            | None \<Rightarrow> getitem FALLBACK_RATES ''USD'') of
        Inl e \<Rightarrow> Inl e
      | Inr base_rate \<Rightarrow> divide_items FALLBACK_RATES base_rate [])"

definition get_rates :: "env \<Rightarrow> string \<Rightarrow> exn + (string \<times> rat) list" where
  "get_rates e base =
     (let base = upper base
      in case live_rates e base of
           Some rates \<Rightarrow> Inr rates
         | None \<Rightarrow> fallback_rates base)"

subsection \<open>Two environments without live rates\<close>

text \<open>\<open>offline\<close>: the \<open>requests\<close> library is not installed. \<open>unreachable\<close>: it is, and every
  request raises.\<close>

definition offline :: env where
  "offline = \<lparr>requests = None, float_of_str = (\<lambda>s. None)\<rparr>"

definition unreachable :: env where
  "unreachable = \<lparr>requests = Some (\<lambda>url. Inl RequestException), float_of_str = (\<lambda>s. None)\<rparr>"

section \<open>Properties\<close>

subsection \<open>Uppercasing\<close>

lemma upper_char_letter:
  "97 \<le> (of_char c :: nat) \<Longrightarrow> (of_char c :: nat) \<le> 122 \<Longrightarrow>
     upper_char c = char_of (of_char c - 32 :: nat)"
  by (simp add: upper_char_def)

lemma upper_char_other:
  "\<not> (97 \<le> (of_char c :: nat) \<and> (of_char c :: nat) \<le> 122) \<Longrightarrow> upper_char c = c"
  unfolding upper_char_def Let_def by (rule if_not_P)

lemma upper_char_idem: "upper_char (upper_char c) = upper_char c"
proof (cases "97 \<le> (of_char c :: nat) \<and> (of_char c :: nat) \<le> 122")
  case True
  let ?d = "char_of (of_char c - 32 :: nat) :: char"
  from True have d: "upper_char c = ?d"
    by (simp add: upper_char_letter)
  from True have "(of_char c - 32 :: nat) mod 256 = of_char c - 32"
    by (intro mod_less) arith
  then have "(of_char ?d :: nat) = of_char c - 32"
    by simp
  with True have "\<not> (97 \<le> (of_char ?d :: nat) \<and> (of_char ?d :: nat) \<le> 122)"
    by arith
  then have "upper_char ?d = ?d"
    by (rule upper_char_other)
  with d show ?thesis
    by simp
next
  case False
  then have "upper_char c = c"
    by (rule upper_char_other)
  then show ?thesis
    by simp
qed

lemma upper_idem: "upper (upper s) = upper s"
  by (simp add: upper_def upper_char_idem)


subsection \<open>The null amount\<close>

text \<open>
  C8. A null amount gives 0.0 and no error, whatever the two codes and the table are,
  also for codes the table lacks: the test of the amount comes before the identity
  case and before the membership test.
\<close>

theorem convert_null_amount: "convert None f t R = Inr 0"
  by (simp add: convert_def)

subsection \<open>The identity case\<close>



subsection \<open>The conversion formula\<close>




subsection \<open>The only error\<close>



subsection \<open>There and back\<close>



subsection \<open>Case of the codes\<close>

text \<open>
  C9. Codes are uppercased before any comparison or lookup: \<open>convert\<close> gives the same
  outcome on two codes as on their uppercase forms, and so does \<open>get_rates\<close> on a base.
\<close>

theorem codes_case_insensitive:
  "convert a x y R = convert a (upper x) (upper y) R
   \<and> get_rates e b = get_rates e (upper b)"
  by (cases a) (simp_all add: convert_def get_rates_def upper_idem)

subsection \<open>The fallback table\<close>

lemma FALLBACK_keys:
  "map fst FALLBACK_RATES = [''USD'', ''EUR'', ''GBP'', ''JPY'', ''INR'', ''CAD'', ''AUD'']"
  by (simp add: FALLBACK_RATES_def)

lemma upper_FALLBACK_keys: "map upper (map fst FALLBACK_RATES) = map fst FALLBACK_RATES"
  by code_simp

lemma FALLBACK_key_upper: "k \<in> set (map fst FALLBACK_RATES) \<Longrightarrow> upper k = k"
proof -
  assume "k \<in> set (map fst FALLBACK_RATES)"
  then obtain i where i: "i < length (map fst FALLBACK_RATES)" and k: "k = map fst FALLBACK_RATES ! i"
    by (auto simp: in_set_conv_nth)
  have "upper k = map upper (map fst FALLBACK_RATES) ! i"
    using i k by (simp only: nth_map)
  then show ?thesis
    using k by (simp only: upper_FALLBACK_keys)
qed

lemma divide_items_FALLBACK:
  "r \<noteq> 0 \<Longrightarrow>
     divide_items FALLBACK_RATES r [] = Inr (map (\<lambda>(code, v). (code, v / r)) FALLBACK_RATES)"
  by (simp add: FALLBACK_RATES_def)

lemma FALLBACK_positive: "map_of FALLBACK_RATES k = Some r \<Longrightarrow> 0 < r"
  by (auto simp: FALLBACK_RATES_def split: if_splits)

lemma FALLBACK_USD: "map_of FALLBACK_RATES ''USD'' = Some 1"
  by (simp add: FALLBACK_RATES_def)

text \<open>The fallback never raises: \<open>USD\<close> is a key of the table and no rate in it is zero.
  The reference rate is the rate of the base when the base is a key, and the rate of
  \<open>USD\<close>, which is 1, when it is not.\<close>

lemma fallback_rates_eq:
  "fallback_rates base =
     Inr (map (\<lambda>(code, v). (code, v / (case map_of FALLBACK_RATES base of Some r \<Rightarrow> r | None \<Rightarrow> 1)))
            FALLBACK_RATES)"
proof (cases "map_of FALLBACK_RATES base")
  case None
  then show ?thesis
    by (simp add: fallback_rates_def getitem_def FALLBACK_USD divide_items_FALLBACK)
next
  case (Some r)
  then have "r \<noteq> 0"
    using FALLBACK_positive by fastforce
  with Some show ?thesis
    by (simp add: fallback_rates_def divide_items_FALLBACK)
qed

lemma map_of_scaled:
  "map_of (map (\<lambda>(code, v). (code, v / r)) kvs) k = map_option (\<lambda>v. v / r) (map_of kvs k)"
  by (induction kvs) auto

lemma get_rates_on_fallback:
  "live_rates e (upper base) = None \<Longrightarrow> get_rates e base = fallback_rates (upper base)"
  by (simp add: get_rates_def)

subsection \<open>How the live retrieval fails\<close>

text \<open>Each failure that the source absorbs leaves \<open>live_rates\<close> with no table: the library
  is absent, the request raises, the status is not 200, the body is not JSON, the
  document is not an object, its \<open>rates\<close> is missing, not an object or empty, or one of
  the values is not a number.\<close>

lemma live_rates_no_library: "requests e = None \<Longrightarrow> live_rates e base = None"
  by (simp add: live_rates_def)

lemma live_rates_request_raises:
  "requests e = Some get \<Longrightarrow> get (url_of base) = Inl x \<Longrightarrow> live_rates e base = None"
  by (simp add: live_rates_def live_body_def)

lemma live_rates_bad_status:
  "requests e = Some get \<Longrightarrow> get (url_of base) = Inr resp \<Longrightarrow> status_code resp \<noteq> 200 \<Longrightarrow>
     live_rates e base = None"
  by (simp add: live_rates_def live_body_def)

lemma live_rates_bad_json:
  "requests e = Some get \<Longrightarrow> get (url_of base) = Inr resp \<Longrightarrow> json resp = Inl x \<Longrightarrow>
     live_rates e base = None"
  by (simp add: live_rates_def live_body_def)

lemma live_rates_not_an_object:
  "requests e = Some get \<Longrightarrow> get (url_of base) = Inr resp \<Longrightarrow> json resp = Inr data \<Longrightarrow>
     py_get data ''rates'' = Inl x \<Longrightarrow> live_rates e base = None"
  by (simp add: live_rates_def live_body_def)

lemma live_rates_no_rates:
  "requests e = Some get \<Longrightarrow> get (url_of base) = Inr resp \<Longrightarrow> json resp = Inr data \<Longrightarrow>
     py_get data ''rates'' = Inr rates \<Longrightarrow> (\<And>items. rates = PyDict items \<Longrightarrow> items = []) \<Longrightarrow>
     live_rates e base = None"
  by (cases rates) (auto simp add: live_rates_def live_body_def)

lemma live_rates_bad_value:
  "requests e = Some get \<Longrightarrow> get (url_of base) = Inr resp \<Longrightarrow> json resp = Inr data \<Longrightarrow>
     py_get data ''rates'' = Inr (PyDict items) \<Longrightarrow>
     upper_float_items (float_of_str e) items [] = Inl x \<Longrightarrow> live_rates e base = None"
  by (simp add: live_rates_def live_body_def)

subsection \<open>The table of the fallback path\<close>

text \<open>
  C4. When the live retrieval gives no table, \<open>get_rates\<close> returns the fallback table with
  every rate divided by a reference rate: the fallback rate of the uppercased base when
  that is a key of the fallback table, the fallback rate of \<open>USD\<close> when it is not. For a
  base that is a key of the fallback table the returned table maps it to 1.
\<close>

theorem get_rates_fallback_table:
  assumes "live_rates e (upper base) = None"
  shows "\<exists>usd ref t.
           map_of FALLBACK_RATES ''USD'' = Some usd
         \<and> ref = (case map_of FALLBACK_RATES (upper base) of Some r \<Rightarrow> r | None \<Rightarrow> usd)
         \<and> get_rates e base = Inr t
         \<and> t = map (\<lambda>(code, v). (code, v / ref)) FALLBACK_RATES
         \<and> (upper base \<in> set (map fst FALLBACK_RATES) \<longrightarrow> map_of t (upper base) = Some 1)
         \<and> (base \<in> set (map fst FALLBACK_RATES) \<longrightarrow> map_of t base = Some 1)"
proof -
  let ?ref = "case map_of FALLBACK_RATES (upper base) of Some r \<Rightarrow> r | None \<Rightarrow> 1"
  let ?t = "map (\<lambda>(code, v). (code, v / ?ref)) FALLBACK_RATES"
  have g: "get_rates e base = Inr ?t"
    using assms by (simp add: get_rates_on_fallback fallback_rates_eq)
  have one: "map_of ?t (upper base) = Some 1" if "upper base \<in> set (map fst FALLBACK_RATES)"
  proof -
    from that obtain r where r: "map_of FALLBACK_RATES (upper base) = Some r"
      by (metis map_of_eq_None_iff not_Some_eq set_map)
    then have "r \<noteq> 0"
      using FALLBACK_positive by fastforce
    with r show ?thesis
      by (simp add: map_of_scaled)
  qed
  have one': "map_of ?t base = Some 1" if "base \<in> set (map fst FALLBACK_RATES)"
    using that one FALLBACK_key_upper [OF that] by simp
  from g one one' FALLBACK_USD show ?thesis
    by blast
qed

text \<open>Without the library, the base \<open>eur\<close> gives the table relative to the euro.\<close>

theorem get_rates_fallback_table_witness:
  "live_rates offline (upper ''eur'') = None
   \<and> get_rates offline ''eur'' =
       Inr [(''USD'', 25 / 23), (''EUR'', 1), (''GBP'', 20 / 23), (''JPY'', 3750 / 23),
            (''INR'', 2075 / 23), (''CAD'', 135 / 92), (''AUD'', 155 / 92)]"
proof -
  have h: "live_rates offline (upper ''eur'') = None"
    by (simp add: live_rates_def offline_def)
  have u: "upper ''eur'' = ''EUR''"
    by code_simp
  have r: "(case map_of FALLBACK_RATES (upper ''eur'') of Some r \<Rightarrow> r | None \<Rightarrow> usd) = 23 / 25"
    for usd
    by (simp add: u FALLBACK_RATES_def)
  from get_rates_fallback_table [OF h] obtain usd t
    where g: "get_rates offline ''eur'' = Inr t"
      and "t = map (\<lambda>(code, v).
                 (code, v / (case map_of FALLBACK_RATES (upper ''eur'') of Some r \<Rightarrow> r | None \<Rightarrow> usd)))
               FALLBACK_RATES"
    by blast
  then have "t = map (\<lambda>(code, v). (code, v / (23 / 25))) FALLBACK_RATES"
    by (simp only: r)
  then have "t = [(''USD'', 25 / 23), (''EUR'', 1), (''GBP'', 20 / 23), (''JPY'', 3750 / 23),
            (''INR'', 2075 / 23), (''CAD'', 135 / 92), (''AUD'', 155 / 92)]"
    by (simp add: FALLBACK_RATES_def)
  with g h show ?thesis
    by simp
qed

subsection \<open>No error from get\_rates\<close>

text \<open>
  C6. \<open>get_rates\<close> returns a table for every environment and every base. When the library
  is absent, when the \<open>try\<close> block raises an exception, or when control falls out of it,
  the table is the one the fallback computes: the failure is absorbed.
\<close>

theorem get_rates_never_raises:
  "\<exists>t. get_rates e base = Inr t
     \<and> (requests e = None
          \<or> (\<exists>get. requests e = Some get
                \<and> (live_body (float_of_str e) get (upper base) = Inr None
                    \<or> (\<exists>x. live_body (float_of_str e) get (upper base) = Inl x)))
        \<longrightarrow> fallback_rates (upper base) = Inr t)"
proof (cases "live_rates e (upper base)")
  case None
  then have "get_rates e base = fallback_rates (upper base)"
    by (rule get_rates_on_fallback)
  then show ?thesis
    by (simp add: fallback_rates_eq)
next
  case (Some t)
  then have "get_rates e base = Inr t"
    by (simp add: get_rates_def)
  moreover from Some have "requests e \<noteq> None"
    by (auto simp: live_rates_def split: option.splits)
  moreover from Some have "live_body (float_of_str e) get (upper base) = Inr (Some t)"
    if "requests e = Some get" for get
    using that by (auto simp: live_rates_def split: option.splits sum.splits)
  ultimately show ?thesis
    by auto
qed

text \<open>With a network that raises on every request, the base \<open>usd\<close> gives the fallback
  table itself.\<close>

theorem get_rates_never_raises_witness:
  "requests unreachable = Some (\<lambda>url. Inl RequestException)
   \<and> live_body (float_of_str unreachable) (\<lambda>url. Inl RequestException) (upper ''usd'') = Inl RequestException
   \<and> get_rates unreachable ''usd'' = Inr FALLBACK_RATES"
proof -
  let ?get = "(\<lambda>url. Inl RequestException) :: string \<Rightarrow> exn + response"
  have h1: "requests unreachable = Some ?get"
    by (simp add: unreachable_def)
  have h2: "live_body (float_of_str unreachable) ?get (upper ''usd'') = Inl RequestException"
    by (simp add: live_body_def)
  from get_rates_never_raises [of unreachable "''usd''"] h1 h2 obtain t
    where g: "get_rates unreachable ''usd'' = Inr t" and "fallback_rates (upper ''usd'') = Inr t"
    by blast
  moreover have "upper ''usd'' = ''USD''"
    by code_simp
  ultimately have "t = FALLBACK_RATES"
    by (simp add: fallback_rates_eq FALLBACK_RATES_def)
  with g h1 h2 show ?thesis
    by simp
qed

subsection \<open>The supported currencies\<close>

text \<open>
  C7. \<open>supported_currencies\<close> is the list of the seven keys of the fallback table in
  strictly ascending order: the same set of codes, sorted, none twice.
\<close>

theorem supported_currencies_sorted_keys:
  "supported_currencies = [''AUD'', ''CAD'', ''EUR'', ''GBP'', ''INR'', ''JPY'', ''USD'']
   \<and> set supported_currencies = set (map fst FALLBACK_RATES)
   \<and> sorted_wrt (<) supported_currencies
   \<and> length supported_currencies = 7"
proof -
  have "distinct (map fst FALLBACK_RATES)"
    by (simp add: FALLBACK_keys)
  then have "sorted_wrt (<) supported_currencies"
    by (simp add: supported_currencies_def strict_sorted_iff)
  moreover have "set supported_currencies = set (map fst FALLBACK_RATES)"
    by (simp add: supported_currencies_def)
  moreover have "supported_currencies = [''AUD'', ''CAD'', ''EUR'', ''GBP'', ''INR'', ''JPY'', ''USD'']"
    by (simp add: supported_currencies_def FALLBACK_keys)
  moreover have "length supported_currencies = 7"
    by (simp add: supported_currencies_def FALLBACK_keys)
  ultimately show ?thesis
    by (intro conjI)
qed

subsection \<open>Keys and signs of the fallback path\<close>

text \<open>
  C10. When the live retrieval gives no table, the table \<open>get_rates\<close> returns has exactly
  the seven keys \<open>USD\<close>, \<open>EUR\<close>, \<open>GBP\<close>, \<open>JPY\<close>, \<open>INR\<close>, \<open>CAD\<close> and \<open>AUD\<close>, each once,
  and every rate in it is strictly positive, for any base.
\<close>

theorem get_rates_fallback_keys_positive:
  assumes "live_rates e (upper base) = None"
  shows "\<exists>t. get_rates e base = Inr t
           \<and> map fst t = [''USD'', ''EUR'', ''GBP'', ''JPY'', ''INR'', ''CAD'', ''AUD'']
           \<and> distinct (map fst t)
           \<and> set (map fst t) = {''USD'', ''EUR'', ''GBP'', ''JPY'', ''INR'', ''CAD'', ''AUD''}
           \<and> list_all (\<lambda>(code, v). 0 < v) t"
proof -
  let ?ref = "case map_of FALLBACK_RATES (upper base) of Some r \<Rightarrow> r | None \<Rightarrow> 1"
  let ?t = "map (\<lambda>(code, v). (code, v / ?ref)) FALLBACK_RATES"
  have g: "get_rates e base = Inr ?t"
    using assms by (simp add: get_rates_on_fallback fallback_rates_eq)
  have ref: "0 < ?ref"
    by (cases "map_of FALLBACK_RATES (upper base)") (simp_all add: FALLBACK_positive)
  have keys: "map fst ?t = [''USD'', ''EUR'', ''GBP'', ''JPY'', ''INR'', ''CAD'', ''AUD'']"
    by (simp add: FALLBACK_RATES_def)
  have pos: "list_all (\<lambda>(code, v). 0 < v) ?t"
    using ref by (simp add: FALLBACK_RATES_def)
  have d: "distinct (map fst ?t)"
    unfolding keys by simp
  have s: "set (map fst ?t) = {''USD'', ''EUR'', ''GBP'', ''JPY'', ''INR'', ''CAD'', ''AUD''}"
    unfolding keys by simp
  from g keys d s pos
  have "get_rates e base = Inr ?t
      \<and> map fst ?t = [''USD'', ''EUR'', ''GBP'', ''JPY'', ''INR'', ''CAD'', ''AUD'']
      \<and> distinct (map fst ?t)
      \<and> set (map fst ?t) = {''USD'', ''EUR'', ''GBP'', ''JPY'', ''INR'', ''CAD'', ''AUD''}
      \<and> list_all (\<lambda>(code, v). 0 < v) ?t"
    by (intro conjI)
  then show ?thesis
    by (rule exI)
qed

text \<open>An unknown base, \<open>xyz\<close>, with a network that raises on every request.\<close>

theorem get_rates_fallback_keys_positive_witness:
  "live_rates unreachable (upper ''xyz'') = None
   \<and> (\<exists>t. get_rates unreachable ''xyz'' = Inr t
           \<and> map fst t = [''USD'', ''EUR'', ''GBP'', ''JPY'', ''INR'', ''CAD'', ''AUD'']
           \<and> distinct (map fst t)
           \<and> set (map fst t) = {''USD'', ''EUR'', ''GBP'', ''JPY'', ''INR'', ''CAD'', ''AUD''}
           \<and> list_all (\<lambda>(code, v). 0 < v) t)"
proof -
  have h: "live_rates unreachable (upper ''xyz'') = None"
    by (simp add: live_rates_def live_body_def unreachable_def)
  from h get_rates_fallback_keys_positive [OF h] show ?thesis
    by (rule conjI)
qed

end
